theory Spec2Isabelle
  imports Complex_Main "HOL-Library.Word"
begin

section \<open>Screen monitor: pixel grids and the similarity score\<close>

text \<open>
  The script \<^verbatim>\<open>modernScript.py\<close> polls two screen regions, scores each capture against a
  reference image and plays a sound when a region matches, at most once per cooldown
  period. The development follows the script function by function.

  Numbers: a pixel channel is an unsigned byte (\<^verbatim>\<open>uint8\<close>); Python's floats (scores, clock
  readings) are modelled as real numbers, so the arithmetic on them is exact.

  Library calls (OpenCV, NumPy, the subprocess and the mixer) are not part of the script.
  What they compute per pixel or per byte string is a parameter of the model; what they
  do to the shape of an array, and when they refuse an empty one, is written out.
\<close>

subsection \<open>Arrays\<close>

type_synonym u8 = "8 word"
type_synonym bgr = "u8 \<times> u8 \<times> u8"
type_synonym bgra = "u8 \<times> u8 \<times> u8 \<times> u8"

text \<open>
  A NumPy image: \<open>rows\<close> and \<open>cols\<close> are \<^verbatim>\<open>shape[0]\<close> and \<^verbatim>\<open>shape[1]\<close>, \<open>pix\<close> is the buffer
  in row-major order, one entry per pixel. The number of channels is the pixel type.
\<close>

record 'p ndarray =
  rows :: nat
  cols :: nat
  pix :: "'p list"

definition shape :: "'p ndarray \<Rightarrow> nat \<times> nat" where
  "shape a = (rows a, cols a)"

definition is_empty :: "'p ndarray \<Rightarrow> bool" where
  "is_empty a = (rows a = 0 \<or> cols a = 0)"

text \<open>The buffer of an array holds exactly \<open>rows * cols\<close> pixels.\<close>

definition wf_array :: "'p ndarray \<Rightarrow> bool" where
  "wf_array a = (length (pix a) = rows a * cols a)"

text \<open>The exceptions the script raises or lets through. A Python \<^verbatim>\<open>str\<close> is a list of
  code points.\<close>

type_synonym pystr = "nat list"

datatype exn =
    FileNotFoundError
  | AttributeError
  | IndexError
  | UnicodeDecodeError
  | RuntimeError pystr
  | NotImplementedError
  | CvError
  | OtherError

subsection \<open>The library functions used by the scorer\<close>

text \<open>
  The two per-pixel computations of OpenCV that the script relies on:
  \<open>resize_px src w h r c\<close> is the pixel at row \<open>r\<close>, column \<open>c\<close> of \<open>src\<close> resized to
  width \<open>w\<close> and height \<open>h\<close> (the interpolation), and \<open>gray_px\<close> is the intensity of a
  BGR pixel.
\<close>

type_synonym resize_px = "bgr ndarray \<Rightarrow> nat \<Rightarrow> nat \<Rightarrow> nat \<Rightarrow> nat \<Rightarrow> bgr"
type_synonym gray_px = "bgr \<Rightarrow> u8"

text \<open>\<^verbatim>\<open>cv2.resize(src, (w, h))\<close>: an array of \<open>h\<close> rows and \<open>w\<close> columns; an empty source
  or an empty target size is refused.\<close>

definition cv_resize :: "resize_px \<Rightarrow> bgr ndarray \<Rightarrow> nat \<times> nat \<Rightarrow> exn + bgr ndarray" where
  "cv_resize K src dsize =
     (case dsize of (w, h) \<Rightarrow>
        if is_empty src \<or> w = 0 \<or> h = 0 then Inl CvError
        else Inr \<lparr>rows = h, cols = w,
                  pix = concat (map (\<lambda>r. map (\<lambda>c. K src w h r c) [0..<w]) [0..<h])\<rparr>)"

text \<open>\<^verbatim>\<open>cv2.cvtColor(img, cv2.COLOR_BGR2GRAY)\<close>: same shape, one intensity per pixel; an
  empty array is refused.\<close>

definition cvtColor_BGR2GRAY :: "gray_px \<Rightarrow> bgr ndarray \<Rightarrow> exn + u8 ndarray" where
  "cvtColor_BGR2GRAY Y img =
     (if is_empty img then Inl CvError
      else Inr \<lparr>rows = rows img, cols = cols img, pix = map Y (pix img)\<rparr>)"

text \<open>\<^verbatim>\<open>cv2.cvtColor(img, cv2.COLOR_BGRA2BGR)\<close> drops the fourth channel.\<close>

definition cvtColor_BGRA2BGR :: "bgra ndarray \<Rightarrow> bgr ndarray" where
  "cvtColor_BGRA2BGR img =
     \<lparr>rows = rows img, cols = cols img, pix = map (\<lambda>(b, g, r, a). (b, g, r)) (pix img)\<rparr>"

definition astype_float :: "u8 \<Rightarrow> real" where
  "astype_float v = real (unat v)"

definition np_mean :: "real list \<Rightarrow> real" where
  "np_mean xs = sum_list xs / real (length xs)"

subsection \<open>\<^verbatim>\<open>compare_images\<close>\<close>

text \<open>
  The second image is resized when the shapes differ, both are made gray, and the score
  is one minus the mean squared difference over \<open>255\<^sup>2\<close>. The two gray arrays have the
  same shape whenever the subtraction is reached, so it is taken entry by entry.
\<close>

definition compare_images ::
    "resize_px \<Rightarrow> gray_px \<Rightarrow> bgr ndarray \<Rightarrow> bgr ndarray \<Rightarrow> exn + real" where
  "compare_images K Y img1 img2 =
     (case (if shape img1 \<noteq> shape img2 then cv_resize K img2 (cols img1, rows img1)
            else Inr img2) of
        Inl e \<Rightarrow> Inl e
      | Inr img2' \<Rightarrow>
          (case cvtColor_BGR2GRAY Y img1 of
             Inl e \<Rightarrow> Inl e
           | Inr gray1 \<Rightarrow>
               (case cvtColor_BGR2GRAY Y img2' of
                  Inl e \<Rightarrow> Inl e
                | Inr gray2 \<Rightarrow>
                    (let mse = np_mean (map2 (\<lambda>a b. (astype_float a - astype_float b)\<^sup>2)
                                 (pix gray1) (pix gray2));
                         max_mse = 255\<^sup>2;
                         similarity = 1 - (mse / max_mse)
                     in Inr similarity))))"

subsection \<open>Configuration\<close>

definition CHECK_INTERVAL :: real where
  "CHECK_INTERVAL = 2"

definition COOLDOWN_PERIOD :: real where
  "COOLDOWN_PERIOD = 20"

definition SIMILARITY_THRESHOLD :: real where
  "SIMILARITY_THRESHOLD = 98 / 100"

record region =
  reg_top :: int
  reg_left :: int
  reg_width :: int
  reg_height :: int

definition REGIONS :: "region list" where
  "REGIONS =
     [\<lparr>reg_top = 834, reg_left = 56, reg_width = 35, reg_height = 31\<rparr>,
      \<lparr>reg_top = 835, reg_left = 1830, reg_width = 35, reg_height = 31\<rparr>]"

text \<open>\<^verbatim>\<open>platform.system()\<close>, read once when the module is loaded.\<close>

datatype os = Windows | Linux | OtherOS

subsection \<open>\<^verbatim>\<open>load_reference_image\<close>\<close>

text \<open>
  What \<^verbatim>\<open>cv2.imread(path, cv2.IMREAD_UNCHANGED)\<close> hands back is \<^verbatim>\<open>None\<close> when the file does
  not decode, and otherwise an array of two axes (a gray image) or of three axes with
  three or four channels.
\<close>

datatype decoded = Gray "u8 ndarray" | Color "bgr ndarray" | ColorAlpha "bgra ndarray"

text \<open>
  \<open>ref_exists\<close> is \<^verbatim>\<open>ref_path.exists()\<close> and \<open>imread\<close> the result of reading that path.
  \<^verbatim>\<open>img.shape[2]\<close> is an attribute access on \<^verbatim>\<open>None\<close> when nothing was decoded, and an
  index past the end of the shape when the array has two axes.
\<close>

definition load_reference_image :: "bool \<Rightarrow> decoded option \<Rightarrow> exn + bgr ndarray" where
  "load_reference_image ref_exists imread =
     (if \<not> ref_exists then Inl FileNotFoundError
      else (case imread of
              None \<Rightarrow> Inl AttributeError
            | Some (Gray img) \<Rightarrow> Inl IndexError
            | Some (ColorAlpha img) \<Rightarrow> Inr (cvtColor_BGRA2BGR img)
            | Some (Color img) \<Rightarrow> Inr img))"

subsection \<open>Capturing a region\<close>

text \<open>\<^verbatim>\<open>sct.grab(region)\<close> of the \<^verbatim>\<open>mss\<close> package: a four-channel screenshot, or a failure.\<close>

datatype grab_outcome = GrabFailed | Grabbed "bgra ndarray"

definition capture_region_windows :: "grab_outcome \<Rightarrow> exn + bgr ndarray option" where
  "capture_region_windows screenshot =
     (case screenshot of
        GrabFailed \<Rightarrow> Inl OtherError
      | Grabbed img \<Rightarrow> Inr (Some (cvtColor_BGRA2BGR img)))"

text \<open>
  \<^verbatim>\<open>subprocess.run(['grim', '-g', geometry, '-'], capture_output=True, check=True)\<close>: the
  process could not be started (the call raises \<^verbatim>\<open>FileNotFoundError\<close>, which the script
  does not handle here), or it ran and left a return code, its standard output and its
  standard error.
\<close>

datatype grim_outcome = NotStarted | Exited int "u8 list" "u8 list"

text \<open>
  \<^verbatim>\<open>bytes.decode()\<close>: strict UTF-8. The result is the list of code points, or \<open>None\<close>
  where Python raises \<^verbatim>\<open>UnicodeDecodeError\<close>.
\<close>

definition is_cont :: "u8 \<Rightarrow> bool" where
  "is_cont b = (0x80 \<le> b \<and> b \<le> 0xBF)"

definition cont_bits :: "u8 \<Rightarrow> nat" where
  "cont_bits b = unat b - 0x80"

fun bytes_decode :: "u8 list \<Rightarrow> pystr option" where
  "bytes_decode [] = Some []"
| "bytes_decode (b0 # bs) =
     (if b0 < 0x80 then map_option ((#) (unat b0)) (bytes_decode bs)
      else if 0xC2 \<le> b0 \<and> b0 \<le> 0xDF then
        (case bs of
           b1 # r \<Rightarrow>
             if is_cont b1
             then map_option ((#) ((unat b0 - 0xC0) * 64 + cont_bits b1)) (bytes_decode r)
             else None
         | _ \<Rightarrow> None)
      else if 0xE0 \<le> b0 \<and> b0 \<le> 0xEF then
        (case bs of
           b1 # b2 # r \<Rightarrow>
             if is_cont b1 \<and> is_cont b2
                \<and> (if b0 = 0xE0 then 0xA0 \<le> b1 else True)
                \<and> (if b0 = 0xED then b1 \<le> 0x9F else True)
             then map_option
                    ((#) ((unat b0 - 0xE0) * 4096 + cont_bits b1 * 64 + cont_bits b2))
                    (bytes_decode r)
             else None
         | _ \<Rightarrow> None)
      else if 0xF0 \<le> b0 \<and> b0 \<le> 0xF4 then
        (case bs of
           b1 # b2 # b3 # r \<Rightarrow>
             if is_cont b1 \<and> is_cont b2 \<and> is_cont b3
                \<and> (if b0 = 0xF0 then 0x90 \<le> b1 else True)
                \<and> (if b0 = 0xF4 then b1 \<le> 0x8F else True)
             then map_option
                    ((#) ((unat b0 - 0xF0) * 262144 + cont_bits b1 * 4096
                          + cont_bits b2 * 64 + cont_bits b3))
                    (bytes_decode r)
             else None
         | _ \<Rightarrow> None)
      else None)"

definition str_of :: "string \<Rightarrow> pystr" where
  "str_of s = map of_char s"

text \<open>
  \<open>imdecode\<close> is \<^verbatim>\<open>cv2.imdecode(np.frombuffer(stdout), cv2.IMREAD_COLOR)\<close>: a three-channel
  image, or \<^verbatim>\<open>None\<close> when the bytes are not an image. Only a \<^verbatim>\<open>CalledProcessError\<close>
  (a return code other than zero) is handled; the handler decodes the standard error
  before it raises.
\<close>

definition capture_region_linux ::
    "(u8 list \<Rightarrow> bgr ndarray option) \<Rightarrow> grim_outcome \<Rightarrow> exn + bgr ndarray option" where
  "capture_region_linux imdecode result =
     (case result of
        NotStarted \<Rightarrow> Inl FileNotFoundError
      | Exited returncode out err \<Rightarrow>
          if returncode = 0 then Inr (imdecode out)
          else (case (if err \<noteq> [] then bytes_decode err
                      else Some (str_of ''No error message'')) of
                  None \<Rightarrow> Inl UnicodeDecodeError
                | Some stderr \<Rightarrow> Inl (RuntimeError (str_of ''grim failed: '' @ stderr))))"

text \<open>The world during one poll cycle: what each capture backend answers for a region,
  the clock, and whether the sound can be played.\<close>

record cycle_io =
  mss_grab :: "region \<Rightarrow> grab_outcome"
  grim_run :: "region \<Rightarrow> grim_outcome"
  time_time :: real
  audio_exists :: bool
  mixer_ok :: bool

definition capture_region ::
    "os \<Rightarrow> (u8 list \<Rightarrow> bgr ndarray option) \<Rightarrow> cycle_io \<Rightarrow> region
       \<Rightarrow> exn + bgr ndarray option" where
  "capture_region sys imdecode io region =
     (case sys of
        Windows \<Rightarrow> capture_region_windows (mss_grab io region)
      | Linux \<Rightarrow> capture_region_linux imdecode (grim_run io region)
      | OtherOS \<Rightarrow> Inl NotImplementedError)"

subsection \<open>\<^verbatim>\<open>play_audio\<close>\<close>

text \<open>What the script prints and plays, in order.\<close>

datatype event =
    Starting
  | ReferenceLoaded
  | ErrorLoadingReference exn
  | CaptureRegion nat
  | RegionScore nat real
  | RegionMatch nat
  | RegionError nat exn
  | PlayingAudioAlert
  | AudioFileNotFound
  | MusicPlay
  | ErrorPlayingAudio
  | CooldownActive int
  | Sleep real
  | MonitoringStopped

definition play_audio :: "cycle_io \<Rightarrow> event list" where
  "play_audio io =
     (if \<not> audio_exists io then [AudioFileNotFound]
      else if mixer_ok io then [MusicPlay]
      else [ErrorPlayingAudio])"

subsection \<open>\<^verbatim>\<open>main\<close>: one region\<close>

text \<open>\<^verbatim>\<open>cv2.imwrite\<close> refuses \<^verbatim>\<open>None\<close> and an empty array.\<close>

definition cv_imwrite :: "bgr ndarray option \<Rightarrow> exn + unit" where
  "cv_imwrite img =
     (case img of
        None \<Rightarrow> Inl CvError
      | Some a \<Rightarrow> if is_empty a then Inl CvError else Inr ())"

text \<open>The library parameters of a run.\<close>

record cvlib =
  interp :: resize_px
  luma :: gray_px
  imdecode :: "u8 list \<Rightarrow> bgr ndarray option"

text \<open>
  The body of the \<^verbatim>\<open>try\<close> up to the score: capture, debug copy, comparison with the
  captured image first and the reference second. \<open>Inl e\<close> is the exception that reaches the
  \<^verbatim>\<open>except Exception\<close> of the region.
\<close>

definition score_region ::
    "cvlib \<Rightarrow> os \<Rightarrow> bgr ndarray \<Rightarrow> cycle_io \<Rightarrow> region \<Rightarrow> exn + real" where
  "score_region lib sys reference_img io region =
     (case capture_region sys (imdecode lib) io region of
        Inl e \<Rightarrow> Inl e
      | Inr screen_img \<Rightarrow>
          (case cv_imwrite screen_img of
             Inl e \<Rightarrow> Inl e
           | Inr _ \<Rightarrow>
               (case screen_img of
                  None \<Rightarrow> Inl AttributeError
                | Some img \<Rightarrow> compare_images (interp lib) (luma lib) img reference_img)))"

text \<open>The rest of the \<^verbatim>\<open>try\<close> and the \<^verbatim>\<open>except\<close>: the new value of \<^verbatim>\<open>match_found\<close> and what
  is printed for region \<open>i\<close>.\<close>

definition report_region :: "nat \<Rightarrow> exn + real \<Rightarrow> bool \<Rightarrow> bool \<times> event list" where
  "report_region i outcome match_found =
     (case outcome of
        Inl e \<Rightarrow> (match_found, [CaptureRegion i, RegionError i e])
      | Inr similarity \<Rightarrow>
          if similarity \<ge> SIMILARITY_THRESHOLD
          then (True, [CaptureRegion i, RegionScore i similarity, RegionMatch i])
          else (match_found, [CaptureRegion i, RegionScore i similarity]))"

text \<open>The \<^verbatim>\<open>for\<close> loop over the regions, numbered from \<open>i\<close>.\<close>

fun scan_regions :: "nat \<Rightarrow> (exn + real) list \<Rightarrow> bool \<Rightarrow> bool \<times> event list" where
  "scan_regions i [] match_found = (match_found, [])"
| "scan_regions i (outcome # rest) match_found =
     (case report_region i outcome match_found of
        (m, evs) \<Rightarrow>
          (case scan_regions (Suc i) rest m of
             (m', evs') \<Rightarrow> (m', evs @ evs')))"

subsection \<open>\<^verbatim>\<open>main\<close>: the alert and the loop\<close>

text \<open>Python's \<^verbatim>\<open>int\<close> of a float drops the fraction.\<close>

definition py_int :: "real \<Rightarrow> int" where
  "py_int x = (if 0 \<le> x then \<lfloor>x\<rfloor> else \<lceil>x\<rceil>)"

text \<open>The \<^verbatim>\<open>if match_found\<close> block: the new \<^verbatim>\<open>last_audio_time\<close> and what is printed and
  played. The clock is read only when a region matched.\<close>

definition alert :: "bool \<Rightarrow> cycle_io \<Rightarrow> real \<Rightarrow> real \<times> event list" where
  "alert match_found io last_audio_time =
     (if match_found then
        (let current_time = time_time io in
         if current_time - last_audio_time \<ge> COOLDOWN_PERIOD
         then (current_time, PlayingAudioAlert # play_audio io)
         else (let remaining = py_int (COOLDOWN_PERIOD - (current_time - last_audio_time))
               in (last_audio_time, [CooldownActive remaining])))
      else (last_audio_time, []))"

text \<open>One pass of the \<^verbatim>\<open>while\<close> body, from the outcomes of the regions.\<close>

definition cycle :: "(exn + real) list \<Rightarrow> cycle_io \<Rightarrow> real \<Rightarrow> real \<times> event list" where
  "cycle outcomes io last_audio_time =
     (case scan_regions 1 outcomes False of
        (match_found, evs) \<Rightarrow>
          (case alert match_found io last_audio_time of
             (t, evs') \<Rightarrow> (t, evs @ evs' @ [Sleep CHECK_INTERVAL])))"

text \<open>
  The \<^verbatim>\<open>while True\<close> loop runs until the interrupt. A run is given by the cycles the world
  lets it complete: for each one the outcomes of its regions and the world of that
  cycle. The result lists, per cycle, \<^verbatim>\<open>last_audio_time\<close> after the cycle and its events.
\<close>

fun run_cycles ::
    "((exn + real) list \<times> cycle_io) list \<Rightarrow> real \<Rightarrow> (real \<times> event list) list" where
  "run_cycles [] last_audio_time = []"
| "run_cycles ((outcomes, io) # rest) last_audio_time =
     (case cycle outcomes io last_audio_time of
        (t, evs) \<Rightarrow> (t, evs) # run_cycles rest t)"

text \<open>Whether the alert fired in a cycle of a run.\<close>

definition alert_fired :: "real \<times> event list \<Rightarrow> bool" where
  "alert_fired c = (PlayingAudioAlert \<in> set (snd c))"

definition observe ::
    "cvlib \<Rightarrow> os \<Rightarrow> bgr ndarray \<Rightarrow> cycle_io \<Rightarrow> (exn + real) list \<times> cycle_io" where
  "observe lib sys reference_img io =
     (map (score_region lib sys reference_img io) REGIONS, io)"

definition main :: "cvlib \<Rightarrow> os \<Rightarrow> bool \<Rightarrow> decoded option \<Rightarrow> cycle_io list \<Rightarrow> event list" where
  "main lib sys ref_exists imread world =
     Starting #
     (case load_reference_image ref_exists imread of
        Inl e \<Rightarrow> [ErrorLoadingReference e]
      | Inr reference_img \<Rightarrow>
          (case cv_imwrite (Some reference_img) of
             Inl e \<Rightarrow> [ReferenceLoaded, ErrorLoadingReference e]
           | Inr _ \<Rightarrow>
               (let last_audio_time = 0 in
                ReferenceLoaded #
                concat (map snd
                  (run_cycles (map (observe lib sys reference_img) world) last_audio_time))
                @ [MonitoringStopped])))"

subsection \<open>The score as the specification words it\<close>

text \<open>
  The specification's Similarity Scorer: when the dimensions differ the reference is
  resized to the candidate's, both grids become intensities, and the score is
  \<open>1 - mean((gray_candidate - gray_reference)\<^sup>2) / 65025\<close>.
\<close>

definition spec_intensity :: "gray_px \<Rightarrow> bgr ndarray \<Rightarrow> nat \<Rightarrow> real" where
  "spec_intensity Y g i = real (unat (Y (pix g ! i)))"

definition spec_resized :: "resize_px \<Rightarrow> bgr ndarray \<Rightarrow> nat \<Rightarrow> nat \<Rightarrow> bgr ndarray" where
  "spec_resized K g h w =
     \<lparr>rows = h, cols = w, pix = map (\<lambda>i. K g w h (i div w) (i mod w)) [0..<h * w]\<rparr>"

definition spec_score :: "resize_px \<Rightarrow> gray_px \<Rightarrow> bgr ndarray \<Rightarrow> bgr ndarray \<Rightarrow> real" where
  "spec_score K Y candidate reference =
     (let reference' =
            (if rows reference = rows candidate \<and> cols reference = cols candidate
             then reference
             else spec_resized K reference (rows candidate) (cols candidate));
          n = rows candidate * cols candidate
      in 1 - (\<Sum>i<n. (spec_intensity Y candidate i - spec_intensity Y reference' i)\<^sup>2)
               / real n / 65025)"

subsection \<open>Concrete inputs\<close>

text \<open>Small inputs on which the results below are evaluated: nearest-neighbour
  interpolation, the green channel as intensity, and three tiny images.\<close>

definition nearest :: resize_px where
  "nearest src w h r c = pix src ! ((r * rows src div h) * cols src + c * cols src div w)"

definition green :: gray_px where
  "green p = (case p of (b, g, r) \<Rightarrow> g)"

definition black_1x1 :: "bgr ndarray" where
  "black_1x1 = \<lparr>rows = 1, cols = 1, pix = [(0, 0, 0)]\<rparr>"

definition white_1x1 :: "bgr ndarray" where
  "white_1x1 = \<lparr>rows = 1, cols = 1, pix = [(255, 255, 255)]\<rparr>"

definition strip_1x2 :: "bgr ndarray" where
  "strip_1x2 = \<lparr>rows = 1, cols = 2, pix = [(0, 0, 0), (0, 255, 0)]\<rparr>"

definition bytes_of :: "string \<Rightarrow> u8 list" where
  "bytes_of s = map of_char s"

text \<open>A decoder that accepts any non-empty output as a white pixel, and a world in
  which \<^verbatim>\<open>grim\<close> fails on the first region and succeeds on the second.\<close>

definition demo_lib :: cvlib where
  "demo_lib =
     \<lparr>interp = nearest, luma = green,
      imdecode = (\<lambda>bs. if bs = [] then None else Some white_1x1)\<rparr>"

definition world_at :: "real \<Rightarrow> cycle_io" where
  "world_at t =
     \<lparr>mss_grab = (\<lambda>r. Grabbed \<lparr>rows = 1, cols = 2, pix = [(0, 0, 0, 255), (0, 255, 0, 255)]\<rparr>),
      grim_run = (\<lambda>r. if reg_left r = 56 then Exited 1 [] (bytes_of ''no output'')
                       else Exited 0 [1] []),
      time_time = t, audio_exists = True, mixer_ok = True\<rparr>"

text \<open>The score sequence of the specification's example, one region per cycle, with
  the clock advancing by the sleep interval from \<open>t\<close>.\<close>

definition example_run :: "real \<Rightarrow> ((exn + real) list \<times> cycle_io) list" where
  "example_run t =
     [([Inr (99 / 100)], world_at t),
      ([Inr (1 / 2)], world_at (t + CHECK_INTERVAL)),
      ([Inr (985 / 1000)], world_at (t + 2 * CHECK_INTERVAL)),
      ([Inr (99 / 100)], world_at (t + 3 * CHECK_INTERVAL)),
      ([Inr (99 / 100)], world_at (t + 4 * CHECK_INTERVAL))]"

section \<open>Properties of the similarity score\<close>

lemma upt_rows_split: "[0..<Suc h * w] = [0..<h * w] @ map (\<lambda>c. c + h * w) [0..<w]"
proof -
  have "[0..<h * w + w] = [0..<h * w] @ [h * w..<h * w + w]"
    by (rule upt_add_eq_append) simp
  moreover have "[h * w..<h * w + w] = map (\<lambda>c. c + h * w) [0..<w]"
    using map_add_upt [of "h * w" w] by (simp only: add.commute)
  moreover have "Suc h * w = h * w + w" by simp
  ultimately show ?thesis by (simp only:)
qed

lemma concat_rows_index:
  "concat (map (\<lambda>r. map (\<lambda>c. f r c) [0..<w]) [0..<h]) =
   map (\<lambda>i. f (i div w) (i mod w)) [0..<h * w]"
proof (induction h)
  case 0
  show ?case by simp
next
  case (Suc h)
  have last_row: "map (\<lambda>i. f (i div w) (i mod w)) (map (\<lambda>c. c + h * w) [0..<w]) = map (\<lambda>c. f h c) [0..<w]"
    by (rule nth_equalityI) simp_all
  have "concat (map (\<lambda>r. map (\<lambda>c. f r c) [0..<w]) [0..<Suc h]) =
        concat (map (\<lambda>r. map (\<lambda>c. f r c) [0..<w]) [0..<h]) @ map (\<lambda>c. f h c) [0..<w]"
    by simp
  also have "\<dots> = map (\<lambda>i. f (i div w) (i mod w)) [0..<h * w] @ map (\<lambda>c. f h c) [0..<w]"
    by (simp only: Suc.IH)
  also have "\<dots> = map (\<lambda>i. f (i div w) (i mod w)) ([0..<h * w] @ map (\<lambda>c. c + h * w) [0..<w])"
    by (simp only: map_append last_row)
  also have "\<dots> = map (\<lambda>i. f (i div w) (i mod w)) [0..<Suc h * w]"
    by (simp only: upt_rows_split)
  finally show ?case .
qed

lemma astype_float_bounds: "0 \<le> astype_float v" "astype_float v \<le> 255"
proof -
  show "0 \<le> astype_float v" unfolding astype_float_def by (rule of_nat_0_le_iff)
  have "unat v < 2 ^ LENGTH(8)" by (rule unsigned_less)
  then have "unat v \<le> 255" by simp
  then have "real (unat v) \<le> real 255" by (simp only: of_nat_le_iff)
  then show "astype_float v \<le> 255" unfolding astype_float_def by simp
qed

lemma sq_diff_bounds:
  "0 \<le> (astype_float a - astype_float b)\<^sup>2" "(astype_float a - astype_float b)\<^sup>2 \<le> 65025"
proof -
  show "0 \<le> (astype_float a - astype_float b)\<^sup>2" by simp
  have "\<bar>astype_float a - astype_float b\<bar> \<le> 255"
    using astype_float_bounds [of a] astype_float_bounds [of b] by linarith
  then have "\<bar>astype_float a - astype_float b\<bar>\<^sup>2 \<le> 255\<^sup>2"
    by (rule power_mono) simp
  then show "(astype_float a - astype_float b)\<^sup>2 \<le> 65025" by simp
qed

lemma sum_list_bounds:
  "\<forall>x \<in> set xs. 0 \<le> x \<and> x \<le> m \<Longrightarrow> 0 \<le> sum_list xs \<and> sum_list xs \<le> real (length xs) * m"
  by (induction xs) (auto simp: algebra_simps)

lemma np_mean_bounds:
  assumes "\<forall>x \<in> set xs. 0 \<le> x \<and> x \<le> m" and "0 \<le> m"
  shows "0 \<le> np_mean xs \<and> np_mean xs \<le> m"
proof (cases "xs = []")
  case True
  with assms show ?thesis by (simp add: np_mean_def)
next
  case False
  then have len: "0 < real (length xs)" by simp
  from sum_list_bounds [OF assms(1)] len show ?thesis
    by (simp add: np_mean_def field_simps)
qed

text \<open>The squared differences of two gray buffers.\<close>

lemma sq_diffs_in_range:
  "\<forall>x \<in> set (map2 (\<lambda>a b. (astype_float a - astype_float b)\<^sup>2) xs ys). 0 \<le> x \<and> x \<le> 65025"
proof
  fix x
  assume "x \<in> set (map2 (\<lambda>a b. (astype_float a - astype_float b)\<^sup>2) xs ys)"
  then obtain a b where "x = (astype_float a - astype_float b)\<^sup>2" by auto
  then show "0 \<le> x \<and> x \<le> 65025" using sq_diff_bounds [of a b] by simp
qed

lemma compare_images_range:
  assumes "compare_images K Y img1 img2 = Inr s"
  shows "0 \<le> s \<and> s \<le> 1"
proof -
  from assms obtain xs ys where
    s: "s = 1 - np_mean (map2 (\<lambda>a b. (astype_float a - astype_float b)\<^sup>2) xs ys) / 255\<^sup>2"
    by (auto simp: compare_images_def Let_def split: sum.splits if_splits)
  have "0 \<le> np_mean (map2 (\<lambda>a b. (astype_float a - astype_float b)\<^sup>2) xs ys)
        \<and> np_mean (map2 (\<lambda>a b. (astype_float a - astype_float b)\<^sup>2) xs ys) \<le> 65025"
    by (rule np_mean_bounds [OF sq_diffs_in_range]) simp
  with s show ?thesis by (simp add: field_simps)
qed

lemma compare_images_returns:
  assumes "\<not> is_empty img1" and "\<not> is_empty img2"
  shows "\<exists>s. compare_images K Y img1 img2 = Inr s"
  using assms
  by (auto simp: compare_images_def cv_resize_def cvtColor_BGR2GRAY_def is_empty_def Let_def)

lemma np_mean_zeros: "np_mean (map (\<lambda>p. 0) xs) = 0"
  by (simp add: np_mean_def)

lemma compare_images_same:
  assumes "\<not> is_empty g"
  shows "compare_images K Y g g = Inr 1"
  using assms
  by (simp add: compare_images_def cvtColor_BGR2GRAY_def Let_def zip_same_conv_map
      comp_def np_mean_zeros)

lemma sum_list_map2_nth:
  assumes "length xs = length ys"
  shows "sum_list (map2 f xs ys) = (\<Sum>i<length xs. f (xs ! i) (ys ! i))"
proof -
  have "sum_list (map2 f xs ys) = (\<Sum>i = 0..<length (map2 f xs ys). map2 f xs ys ! i)"
    by (rule sum_list_sum_nth)
  also have "\<dots> = (\<Sum>i = 0..<length xs. f (xs ! i) (ys ! i))"
    using assms by (intro sum.cong) simp_all
  finally show ?thesis by (simp add: atLeast0LessThan)
qed

lemma cv_resize_spec_resized:
  assumes "\<not> is_empty src" and "0 < w" and "0 < h"
  shows "cv_resize K src (w, h) = Inr (spec_resized K src h w)"
  using assms by (simp add: cv_resize_def spec_resized_def concat_rows_index)

lemma gray_mse_as_sum:
  assumes "length (pix a) = n" and "length (pix b) = n"
  shows "np_mean (map2 (\<lambda>x y. (astype_float x - astype_float y)\<^sup>2) (map Y (pix a)) (map Y (pix b)))
         = (\<Sum>i<n. (spec_intensity Y a i - spec_intensity Y b i)\<^sup>2) / real n"
proof -
  have len: "length (map Y (pix a)) = length (map Y (pix b))" using assms by simp
  have "sum_list (map2 (\<lambda>x y. (astype_float x - astype_float y)\<^sup>2) (map Y (pix a)) (map Y (pix b)))
        = (\<Sum>i<n. (astype_float (map Y (pix a) ! i) - astype_float (map Y (pix b) ! i))\<^sup>2)"
    using sum_list_map2_nth [OF len, of "\<lambda>x y. (astype_float x - astype_float y)\<^sup>2"] assms(1)
    by simp
  also have "\<dots> = (\<Sum>i<n. (spec_intensity Y a i - spec_intensity Y b i)\<^sup>2)"
    using assms by (intro sum.cong) (simp_all add: spec_intensity_def astype_float_def)
  finally show ?thesis using assms by (simp add: np_mean_def)
qed

lemma compare_images_spec_score:
  assumes "wf_array candidate" and "wf_array reference"
    and "\<not> is_empty candidate" and "\<not> is_empty reference"
  shows "compare_images K Y candidate reference = Inr (spec_score K Y candidate reference)"
proof (cases "shape candidate = shape reference")
  case True
  then have dims: "rows reference = rows candidate" "cols reference = cols candidate"
    by (simp_all add: shape_def)
  have n: "length (pix candidate) = rows candidate * cols candidate"
          "length (pix reference) = rows candidate * cols candidate"
    using assms(1,2) dims by (simp_all add: wf_array_def)
  have ne: "\<not> is_empty reference" by (rule assms(4))
  show ?thesis
    using True assms(3) ne dims
    by (simp add: compare_images_def cvtColor_BGR2GRAY_def Let_def spec_score_def
        gray_mse_as_sum [OF n])
next
  case False
  then have dims: "\<not> (rows reference = rows candidate \<and> cols reference = cols candidate)"
    by (auto simp: shape_def)
  have pos: "0 < cols candidate" "0 < rows candidate"
    using assms(3) by (simp_all add: is_empty_def)
  let ?r = "spec_resized K reference (rows candidate) (cols candidate)"
  have resized: "cv_resize K reference (cols candidate, rows candidate) = Inr ?r"
    by (rule cv_resize_spec_resized [OF assms(4) pos])
  have n: "length (pix candidate) = rows candidate * cols candidate"
          "length (pix ?r) = rows candidate * cols candidate"
    using assms(1) by (simp_all add: wf_array_def spec_resized_def)
  have ne: "\<not> is_empty ?r" using pos by (simp add: is_empty_def spec_resized_def)
  have shp: "rows ?r = rows candidate" "cols ?r = cols candidate"
    by (simp_all add: spec_resized_def)
  have sc: "spec_score K Y candidate reference
            = 1 - (\<Sum>i<rows candidate * cols candidate.
                     (spec_intensity Y candidate i - spec_intensity Y ?r i)\<^sup>2)
                  / real (rows candidate * cols candidate) / 65025"
    unfolding spec_score_def Let_def if_not_P [OF dims] ..
  show ?thesis
    unfolding sc using False assms(3) ne
    by (simp add: compare_images_def resized cvtColor_BGR2GRAY_def Let_def
        gray_mse_as_sum [OF n] shp)
qed

text \<open>Two evaluations on the concrete inputs.\<close>

lemma black_white_score: "compare_images K green black_1x1 white_1x1 = Inr 0"
  by (simp add: compare_images_def shape_def black_1x1_def white_1x1_def cvtColor_BGR2GRAY_def
      is_empty_def Let_def np_mean_def astype_float_def green_def)

lemma sum_lessThan_two: "(\<Sum>i<(2::nat). f i) = f 0 + (f 1 :: real)"
  by (simp add: lessThan_Suc numeral_2_eq_2)

lemma spec_score_strip: "spec_score nearest green strip_1x2 white_1x1 = 1 / 2"
  by (simp add: spec_score_def spec_resized_def strip_1x2_def white_1x1_def Let_def
      spec_intensity_def nearest_def green_def sum_lessThan_two)

lemma capture_windows_demo:
  "capture_region Windows (imdecode demo_lib) (world_at 50) (REGIONS ! 0) = Inr (Some strip_1x2)"
  by (simp add: capture_region_def capture_region_windows_def world_at_def
      cvtColor_BGRA2BGR_def strip_1x2_def)

subsection \<open>The claims about the score\<close>

text \<open>
  Claim C1. For every pair of three-channel 8-bit pixel grids of positive dimensions,
  the scorer returns \<open>1 - mean((gray_candidate - gray_reference)\<^sup>2) / 65025\<close>: both grids
  are made gray, and when the dimensions differ it is the reference, the second
  argument, that is resized to the candidate's dimensions, never the candidate. The
  second statement is the call in \<^verbatim>\<open>main\<close>: the captured image is the candidate and the
  loaded reference is the reference.
\<close>

theorem scorer_refines_spec:
  assumes "wf_array candidate" and "wf_array reference"
    and "\<not> is_empty candidate" and "\<not> is_empty reference"
  shows "compare_images K Y candidate reference = Inr (spec_score K Y candidate reference)
       \<and> (capture_region sys (imdecode lib) io region = Inr (Some candidate) \<longrightarrow>
            score_region lib sys reference io region
              = Inr (spec_score (interp lib) (luma lib) candidate reference))"
proof (intro conjI impI)
  show "compare_images K Y candidate reference = Inr (spec_score K Y candidate reference)"
    by (rule compare_images_spec_score [OF assms])
next
  assume "capture_region sys (imdecode lib) io region = Inr (Some candidate)"
  then show "score_region lib sys reference io region
           = Inr (spec_score (interp lib) (luma lib) candidate reference)"
    using assms(3)
    by (simp add: score_region_def cv_imwrite_def compare_images_spec_score [OF assms])
qed

text \<open>A one by two candidate against a one by one white reference: the reference is
  stretched to one by two, and the score is one half; the same on the path through
  \<open>score_region\<close>, with the candidate grabbed on Windows.\<close>

theorem scorer_refines_spec_witness:
  "wf_array strip_1x2 \<and> wf_array white_1x1 \<and> \<not> is_empty strip_1x2 \<and> \<not> is_empty white_1x1
   \<and> compare_images nearest green strip_1x2 white_1x1 = Inr (1 / 2)
   \<and> capture_region Windows (imdecode demo_lib) (world_at 50) (REGIONS ! 0)
     = Inr (Some strip_1x2)
   \<and> score_region demo_lib Windows white_1x1 (world_at 50) (REGIONS ! 0) = Inr (1 / 2)"
  using scorer_refines_spec [of strip_1x2 white_1x1 nearest green Windows demo_lib
      "world_at 50" "REGIONS ! 0"] spec_score_strip capture_windows_demo
  by (simp add: wf_array_def is_empty_def strip_1x2_def white_1x1_def demo_lib_def)

text \<open>
  Claim C4, as stated: the score lies in \<open>(-\<infinity>, 1]\<close> and some pair of 8-bit grids has a
  strictly negative score. The second half fails: no inputs at all give a negative
  score, because a squared difference of two bytes is at most \<open>255\<^sup>2\<close>.
\<close>

theorem negative_score_counterexample:
  "\<not> (\<exists>K Y img1 img2 s. compare_images K Y img1 img2 = Inr s \<and> s < 0)"
proof
  assume "\<exists>K Y img1 img2 s. compare_images K Y img1 img2 = Inr s \<and> s < 0"
  then obtain K Y img1 img2 s where "compare_images K Y img1 img2 = Inr s" and "s < 0"
    by blast
  with compare_images_range [of K Y img1 img2 s] show False by simp
qed

text \<open>
  Claim C4, amended. The score is not clamped and needs no clamp: for every pair of
  pixel grids of positive dimensions a score is returned, and it lies in \<open>[0, 1]\<close>.
\<close>

theorem score_in_unit_interval:
  assumes "\<not> is_empty img1" and "\<not> is_empty img2"
  shows "\<exists>s. compare_images K Y img1 img2 = Inr s \<and> 0 \<le> s \<and> s \<le> 1"
proof -
  from compare_images_returns [OF assms] obtain s
    where s: "compare_images K Y img1 img2 = Inr s"
    by blast
  with compare_images_range [OF s] show ?thesis by blast
qed

text \<open>The most dissimilar pair, black against white, scores exactly zero.\<close>

theorem score_in_unit_interval_witness:
  "\<not> is_empty black_1x1 \<and> \<not> is_empty white_1x1
   \<and> (\<exists>s. compare_images nearest green black_1x1 white_1x1 = Inr s \<and> 0 \<le> s \<and> s \<le> 1)
   \<and> compare_images nearest green black_1x1 white_1x1 = Inr 0"
  using score_in_unit_interval [of black_1x1 white_1x1 nearest green]
    black_white_score [of nearest]
  by (simp add: is_empty_def black_1x1_def white_1x1_def)

text \<open>
  Claim C8. Scoring a pixel grid of positive dimensions against itself returns
  exactly \<open>1\<close>.
\<close>

theorem identical_grids_score_one:
  assumes "\<not> is_empty g"
  shows "compare_images K Y g g = Inr 1"
  using assms by (rule compare_images_same)

theorem identical_grids_score_one_witness:
  "\<not> is_empty strip_1x2 \<and> compare_images nearest green strip_1x2 strip_1x2 = Inr 1"
  using identical_grids_score_one [of strip_1x2 nearest green]
  by (simp add: is_empty_def strip_1x2_def)

section \<open>Properties of the region loop\<close>

lemma report_region_events:
  "snd (report_region i outcome m) = snd (report_region i outcome False)"
  by (simp add: report_region_def split: sum.splits)

lemma scan_regions_Cons_match:
  "fst (scan_regions i (outcome # rest) m)
   = fst (scan_regions (Suc i) rest (fst (report_region i outcome m)))"
  by (simp split: prod.splits)

lemma report_region_match:
  "fst (report_region i outcome m)
   = (m \<or> (\<exists>s. outcome = Inr s \<and> SIMILARITY_THRESHOLD \<le> s))"
  by (cases outcome) (simp_all add: report_region_def)

lemma scan_regions_match:
  "fst (scan_regions i outcomes m)
   = (m \<or> (\<exists>s. Inr s \<in> set outcomes \<and> SIMILARITY_THRESHOLD \<le> s))"
proof (induction outcomes arbitrary: i m)
  case Nil
  show ?case by simp
next
  case (Cons outcome rest)
  have "fst (scan_regions i (outcome # rest) m)
        = ((m \<or> (\<exists>s. outcome = Inr s \<and> SIMILARITY_THRESHOLD \<le> s))
           \<or> (\<exists>s. Inr s \<in> set rest \<and> SIMILARITY_THRESHOLD \<le> s))"
    by (simp only: scan_regions_Cons_match Cons.IH report_region_match)
  also have "\<dots> = (m \<or> (\<exists>s. Inr s \<in> set (outcome # rest) \<and> SIMILARITY_THRESHOLD \<le> s))"
    by auto
  finally show ?case .
qed

lemma scan_regions_Cons_events:
  "snd (scan_regions i (outcome # rest) m)
   = snd (report_region i outcome m) @ snd (scan_regions (Suc i) rest (fst (report_region i outcome m)))"
  by (simp split: prod.splits)

lemma scan_regions_captures:
  "k < length outcomes \<Longrightarrow> CaptureRegion (i + k) \<in> set (snd (scan_regions i outcomes m))"
proof (induction outcomes arbitrary: i m k)
  case Nil
  then show ?case by simp
next
  case (Cons outcome rest)
  show ?case
  proof (cases k)
    case 0
    then show ?thesis
      by (simp add: scan_regions_Cons_events report_region_def del: scan_regions.simps
          split: sum.splits)
  next
    case (Suc k')
    with Cons.prems have "k' < length rest" by simp
    from Cons.IH [OF this, of "Suc i"] Suc show ?thesis
      by (simp add: scan_regions_Cons_events del: scan_regions.simps)
  qed
qed

lemma scan_regions_logs_error:
  "k < length outcomes \<Longrightarrow> outcomes ! k = Inl e \<Longrightarrow>
   RegionError (i + k) e \<in> set (snd (scan_regions i outcomes m))"
proof (induction outcomes arbitrary: i m k)
  case Nil
  then show ?case by simp
next
  case (Cons outcome rest)
  show ?case
  proof (cases k)
    case 0
    with Cons.prems show ?thesis
      by (simp add: scan_regions_Cons_events report_region_def del: scan_regions.simps)
  next
    case (Suc k')
    with Cons.prems have "k' < length rest" "rest ! k' = Inl e" by simp_all
    from Cons.IH [OF this, of "Suc i"] Suc show ?thesis
      by (simp add: scan_regions_Cons_events del: scan_regions.simps)
  qed
qed

lemma scan_regions_scores:
  "k < length outcomes \<Longrightarrow> outcomes ! k = Inr s \<Longrightarrow>
   RegionScore (i + k) s \<in> set (snd (scan_regions i outcomes m))"
proof (induction outcomes arbitrary: i m k)
  case Nil
  then show ?case by simp
next
  case (Cons outcome rest)
  show ?case
  proof (cases k)
    case 0
    with Cons.prems show ?thesis
      by (simp add: scan_regions_Cons_events report_region_def del: scan_regions.simps)
  next
    case (Suc k')
    with Cons.prems have "k' < length rest" "rest ! k' = Inr s" by simp_all
    from Cons.IH [OF this, of "Suc i"] Suc show ?thesis
      by (simp add: scan_regions_Cons_events del: scan_regions.simps)
  qed
qed

lemma scan_regions_match_origin:
  "RegionMatch n \<in> set (snd (scan_regions i outcomes m)) \<Longrightarrow>
   \<exists>k s. k < length outcomes \<and> n = i + k \<and> outcomes ! k = Inr s \<and> SIMILARITY_THRESHOLD \<le> s"
proof (induction outcomes arbitrary: i m)
  case Nil
  then show ?case by simp
next
  case (Cons outcome rest)
  from Cons.prems consider
      (head) "RegionMatch n \<in> set (snd (report_region i outcome m))"
    | (tail) "RegionMatch n \<in> set (snd (scan_regions (Suc i) rest (fst (report_region i outcome m))))"
    by (auto simp: scan_regions_Cons_events simp del: scan_regions.simps)
  then show ?case
  proof cases
    case head
    then obtain s where "outcome = Inr s" "SIMILARITY_THRESHOLD \<le> s" "n = i"
      by (auto simp: report_region_def split: sum.splits if_splits)
    then have "0 < length (outcome # rest) \<and> n = i + 0 \<and> (outcome # rest) ! 0 = Inr s
               \<and> SIMILARITY_THRESHOLD \<le> s" by simp
    then show ?thesis by blast
  next
    case tail
    from Cons.IH [OF tail] obtain k s where
      "k < length rest" "n = Suc i + k" "rest ! k = Inr s" "SIMILARITY_THRESHOLD \<le> s"
      by blast
    then have "Suc k < length (outcome # rest) \<and> n = i + Suc k \<and> (outcome # rest) ! Suc k = Inr s
               \<and> SIMILARITY_THRESHOLD \<le> s" by simp
    then show ?thesis by blast
  qed
qed

lemma scan_regions_no_alert:
  "PlayingAudioAlert \<notin> set (snd (scan_regions i outcomes m))"
proof (induction outcomes arbitrary: i m)
  case Nil
  show ?case by simp
next
  case (Cons outcome rest)
  have "PlayingAudioAlert \<notin> set (snd (report_region i outcome m))"
    by (simp add: report_region_def split: sum.splits)
  with Cons.IH show ?case
    by (simp add: scan_regions_Cons_events del: scan_regions.simps)
qed

lemma cycle_unfold:
  "cycle outcomes io t =
     (fst (alert (fst (scan_regions 1 outcomes False)) io t),
      snd (scan_regions 1 outcomes False)
      @ snd (alert (fst (scan_regions 1 outcomes False)) io t)
      @ [Sleep CHECK_INTERVAL])"
  by (simp add: cycle_def split: prod.splits)

lemma play_audio_no_alert: "PlayingAudioAlert \<notin> set (play_audio io)"
  by (simp add: play_audio_def)

text \<open>The alert step and a run whose first cycles have no match.\<close>

lemma alert_fires:
  "COOLDOWN_PERIOD \<le> time_time io - t \<Longrightarrow>
   alert True io t = (time_time io, PlayingAudioAlert # play_audio io)"
  by (simp add: alert_def Let_def)

lemma alert_suppressed:
  "time_time io - t < COOLDOWN_PERIOD \<Longrightarrow>
   alert True io t = (t, [CooldownActive (py_int (COOLDOWN_PERIOD - (time_time io - t)))])"
  by (simp add: alert_def Let_def)

lemma alert_no_match: "alert False io t = (t, [])"
  by (simp add: alert_def)

lemma cycle_no_match:
  "\<not> fst (scan_regions 1 outcomes False) \<Longrightarrow>
   cycle outcomes io t = (t, snd (scan_regions 1 outcomes False) @ [Sleep CHECK_INTERVAL])"
  by (simp add: cycle_unfold alert_no_match)

lemma run_cycles_quiet_prefix:
  "\<forall>ob \<in> set pre. \<not> fst (scan_regions 1 (fst ob) False) \<Longrightarrow>
   run_cycles (pre @ rest) t ! length pre = run_cycles rest t ! 0"
proof (induction pre)
  case Nil
  show ?case by simp
next
  case (Cons ob pre)
  obtain outcomes io where ob: "ob = (outcomes, io)" by (cases ob)
  with Cons.prems have quiet: "\<not> fst (scan_regions 1 outcomes False)" by simp
  from Cons have "run_cycles (pre @ rest) t ! length pre = run_cycles rest t ! 0" by simp
  then show ?case using ob by (simp add: cycle_no_match [OF quiet])
qed

text \<open>Cycles with a single region in the example world, and the trace of the
  specification's example.\<close>

lemma world_at_simps:
  "time_time (world_at t) = t" "audio_exists (world_at t)" "mixer_ok (world_at t)"
  by (simp_all add: world_at_def)

lemma play_audio_world_at: "play_audio (world_at t) = [MusicPlay]"
  by (simp add: play_audio_def world_at_simps)

lemma scan_one_match:
  "SIMILARITY_THRESHOLD \<le> s \<Longrightarrow>
   scan_regions i [Inr s] False = (True, [CaptureRegion i, RegionScore i s, RegionMatch i])"
  by (simp add: report_region_def)

lemma scan_one_no_match:
  "s < SIMILARITY_THRESHOLD \<Longrightarrow>
   scan_regions i [Inr s] False = (False, [CaptureRegion i, RegionScore i s])"
  by (simp add: report_region_def)

lemma cycle_one_fires:
  assumes "SIMILARITY_THRESHOLD \<le> s" and "COOLDOWN_PERIOD \<le> u - t"
  shows "cycle [Inr s] (world_at u) t
         = (u, [CaptureRegion 1, RegionScore 1 s, RegionMatch 1, PlayingAudioAlert, MusicPlay,
                Sleep CHECK_INTERVAL])"
  using assms
  by (simp add: cycle_unfold scan_one_match alert_fires world_at_simps play_audio_world_at
      del: scan_regions.simps)

lemma cycle_one_suppressed:
  assumes "SIMILARITY_THRESHOLD \<le> s" and "u - t < COOLDOWN_PERIOD"
  shows "cycle [Inr s] (world_at u) t
         = (t, [CaptureRegion 1, RegionScore 1 s, RegionMatch 1,
                CooldownActive (py_int (COOLDOWN_PERIOD - (u - t))), Sleep CHECK_INTERVAL])"
  using assms
  by (simp add: cycle_unfold scan_one_match alert_suppressed world_at_simps
      del: scan_regions.simps)

lemma cycle_one_quiet:
  assumes "s < SIMILARITY_THRESHOLD"
  shows "cycle [Inr s] io t = (t, [CaptureRegion 1, RegionScore 1 s, Sleep CHECK_INTERVAL])"
  using assms
  by (simp add: cycle_unfold scan_one_no_match alert_no_match del: scan_regions.simps)

lemma example_run_trace:
  assumes "COOLDOWN_PERIOD \<le> t"
  shows "run_cycles (example_run t) 0 =
     [(t, [CaptureRegion 1, RegionScore 1 (99 / 100), RegionMatch 1, PlayingAudioAlert,
           MusicPlay, Sleep 2]),
      (t, [CaptureRegion 1, RegionScore 1 (1 / 2), Sleep 2]),
      (t, [CaptureRegion 1, RegionScore 1 (985 / 1000), RegionMatch 1, CooldownActive 16,
           Sleep 2]),
      (t, [CaptureRegion 1, RegionScore 1 (99 / 100), RegionMatch 1, CooldownActive 14,
           Sleep 2]),
      (t, [CaptureRegion 1, RegionScore 1 (99 / 100), RegionMatch 1, CooldownActive 12,
           Sleep 2])]"
proof -
  have c1: "cycle [Inr (99 / 100)] (world_at t) 0
            = (t, [CaptureRegion 1, RegionScore 1 (99 / 100), RegionMatch 1, PlayingAudioAlert,
                   MusicPlay, Sleep 2])"
    using assms cycle_one_fires [of "99 / 100" t 0]
    by (simp add: SIMILARITY_THRESHOLD_def CHECK_INTERVAL_def)
  have c2: "cycle [Inr (1 / 2)] (world_at (t + CHECK_INTERVAL)) t
            = (t, [CaptureRegion 1, RegionScore 1 (1 / 2), Sleep 2])"
    using cycle_one_quiet [of "1 / 2" "world_at (t + CHECK_INTERVAL)" t]
    by (simp add: SIMILARITY_THRESHOLD_def CHECK_INTERVAL_def)
  have c3: "cycle [Inr (197 / 200)] (world_at (t + 2 * CHECK_INTERVAL)) t
            = (t, [CaptureRegion 1, RegionScore 1 (197 / 200), RegionMatch 1,
                   CooldownActive 16, Sleep 2])"
    using cycle_one_suppressed [of "197 / 200" "t + 2 * CHECK_INTERVAL" t]
    by (simp add: SIMILARITY_THRESHOLD_def CHECK_INTERVAL_def COOLDOWN_PERIOD_def py_int_def)
  have c4: "cycle [Inr (99 / 100)] (world_at (t + 3 * CHECK_INTERVAL)) t
            = (t, [CaptureRegion 1, RegionScore 1 (99 / 100), RegionMatch 1,
                   CooldownActive 14, Sleep 2])"
    using cycle_one_suppressed [of "99 / 100" "t + 3 * CHECK_INTERVAL" t]
    by (simp add: SIMILARITY_THRESHOLD_def CHECK_INTERVAL_def COOLDOWN_PERIOD_def py_int_def)
  have c5: "cycle [Inr (99 / 100)] (world_at (t + 4 * CHECK_INTERVAL)) t
            = (t, [CaptureRegion 1, RegionScore 1 (99 / 100), RegionMatch 1,
                   CooldownActive 12, Sleep 2])"
    using cycle_one_suppressed [of "99 / 100" "t + 4 * CHECK_INTERVAL" t]
    by (simp add: SIMILARITY_THRESHOLD_def CHECK_INTERVAL_def COOLDOWN_PERIOD_def py_int_def)
  show ?thesis
    by (simp add: example_run_def c1 c2 c3 c4 c5)
qed

text \<open>The cooldown timestamp along a run.\<close>

lemma cycle_time_step:
  "fst (cycle outcomes io t) = t
   \<or> (t + COOLDOWN_PERIOD \<le> fst (cycle outcomes io t)
      \<and> fst (cycle outcomes io t) = time_time io
      \<and> alert_fired (cycle outcomes io t))"
  by (simp add: cycle_unfold alert_def alert_fired_def Let_def)

lemma cycle_time_mono: "t \<le> fst (cycle outcomes io t)"
  using cycle_time_step [of outcomes io t] by (auto simp: COOLDOWN_PERIOD_def)

lemma run_cycles_Cons:
  "run_cycles (ob # rest) t
   = cycle (fst ob) (snd ob) t # run_cycles rest (fst (cycle (fst ob) (snd ob) t))"
  by (cases ob) (simp split: prod.splits)

lemma length_run_cycles: "length (run_cycles obs t) = length obs"
  by (induction obs arbitrary: t) (simp_all add: run_cycles_Cons del: run_cycles.simps(2))

lemma run_cycles_sorted: "sorted (t # map fst (run_cycles obs t))"
proof (induction obs arbitrary: t)
  case Nil
  show ?case by simp
next
  case (Cons ob rest)
  have "t \<le> fst (cycle (fst ob) (snd ob) t)" by (rule cycle_time_mono)
  moreover have "sorted (fst (cycle (fst ob) (snd ob) t)
                   # map fst (run_cycles rest (fst (cycle (fst ob) (snd ob) t))))"
    by (rule Cons.IH)
  ultimately show ?case
    by (auto simp: run_cycles_Cons simp del: run_cycles.simps)
qed

lemma run_cycles_updates:
  "k < length obs \<Longrightarrow>
   map fst (run_cycles obs t) ! k = (t # map fst (run_cycles obs t)) ! k
   \<or> ((t # map fst (run_cycles obs t)) ! k < map fst (run_cycles obs t) ! k
      \<and> alert_fired (run_cycles obs t ! k))"
proof (induction obs arbitrary: t k)
  case Nil
  then show ?case by simp
next
  case (Cons ob rest)
  let ?c = "cycle (fst ob) (snd ob) t"
  show ?case
  proof (cases k)
    case 0
    then show ?thesis
      using cycle_time_step [of "fst ob" "snd ob" t]
      by (auto simp: run_cycles_Cons COOLDOWN_PERIOD_def simp del: run_cycles.simps)
  next
    case (Suc k')
    with Cons.prems have "k' < length rest" by simp
    from Cons.IH [OF this, of "fst ?c"] Suc show ?thesis
      by (simp add: run_cycles_Cons length_run_cycles del: run_cycles.simps)
  qed
qed

text \<open>The Linux capture backend, by return code.\<close>

lemma capture_linux_zero_exit:
  "capture_region_linux dec (Exited 0 out err) = Inr (dec out)"
  by (simp add: capture_region_linux_def)

lemma capture_linux_runtime_error:
  "capture_region_linux dec result = Inl (RuntimeError m) \<Longrightarrow>
   \<exists>returncode out err. result = Exited returncode out err \<and> returncode \<noteq> 0"
  by (cases result) (auto simp: capture_region_linux_def split: if_splits option.splits)

lemma capture_linux_nonzero_exit:
  "returncode \<noteq> 0 \<Longrightarrow>
   capture_region_linux dec (Exited returncode out err)
   = (if err = [] then Inl (RuntimeError (str_of ''grim failed: '' @ str_of ''No error message''))
      else (case bytes_decode err of
              None \<Rightarrow> Inl UnicodeDecodeError
            | Some stderr \<Rightarrow> Inl (RuntimeError (str_of ''grim failed: '' @ stderr))))"
  by (simp add: capture_region_linux_def)

text \<open>One cycle on Linux in the example world: the first capture fails, the second
  matches.\<close>

lemma alert_no_region_events:
  "RegionMatch n \<notin> set (snd (alert m io t))"
  by (simp add: alert_def play_audio_def Let_def)

lemma observe_demo:
  "fst (observe demo_lib Linux white_1x1 (world_at 50))
   = [Inl (RuntimeError (str_of ''grim failed: no output'')), Inr 1]"
  by (simp add: observe_def REGIONS_def score_region_def capture_region_def
      capture_region_linux_def world_at_def bytes_of_def demo_lib_def cv_imwrite_def
      compare_images_same is_empty_def white_1x1_def str_of_def is_cont_def cont_bits_def)

lemma scan_regions_match_nth:
  "fst (scan_regions i outcomes False)
   = (\<exists>k<length outcomes. \<exists>s. outcomes ! k = Inr s \<and> SIMILARITY_THRESHOLD \<le> s)"
  by (simp add: scan_regions_match in_set_conv_nth) blast

lemma cycle_demo:
  "cycle [Inl (RuntimeError (str_of ''grim failed: no output'')), Inr 1] (world_at 50) 0
   = (50, [CaptureRegion 1, RegionError 1 (RuntimeError (str_of ''grim failed: no output'')),
           CaptureRegion 2, RegionScore 2 1, RegionMatch 2, PlayingAudioAlert, MusicPlay,
           Sleep 2])"
  by (simp add: cycle_def report_region_def SIMILARITY_THRESHOLD_def alert_def
      world_at_simps COOLDOWN_PERIOD_def play_audio_world_at CHECK_INTERVAL_def)

text \<open>After a successful load, \<^verbatim>\<open>main\<close> is the run of the cycles from
  \<open>last_audio_time = 0\<close>.\<close>

lemma main_runs_from_zero:
  assumes "load_reference_image ref_exists imread = Inr reference_img"
    and "\<not> is_empty reference_img"
  shows "main lib sys ref_exists imread world
         = Starting # ReferenceLoaded
           # concat (map snd (run_cycles (map (observe lib sys reference_img) world) 0))
           @ [MonitoringStopped]"
  using assms by (simp add: main_def cv_imwrite_def)

subsection \<open>The claims about the alert and the loop\<close>

text \<open>
  Claim C2. In every cycle in which some region matched: if
  \<open>now - last_audio_time \<ge> COOLDOWN_PERIOD\<close> the sound is played and \<open>last_audio_time\<close>
  becomes \<open>now\<close>; otherwise the remaining seconds are reported, nothing is played and
  \<open>last_audio_time\<close> is unchanged. In particular the alert fires on the first match
  after startup, when \<open>last_audio_time\<close> is still \<open>0\<close> (the clock is \<^verbatim>\<open>time.time()\<close>, seconds
  since 1970, so it reads at least the cooldown period), and it fires again as soon as
  \<open>now - last_audio_time = COOLDOWN_PERIOD\<close>.
\<close>

theorem alert_on_match:
  assumes "fst (scan_regions 1 outcomes False)"
  shows "(COOLDOWN_PERIOD \<le> time_time io - t \<longrightarrow>
            cycle outcomes io t
            = (time_time io,
               snd (scan_regions 1 outcomes False) @ PlayingAudioAlert # play_audio io
               @ [Sleep CHECK_INTERVAL]))
       \<and> (time_time io - t < COOLDOWN_PERIOD \<longrightarrow>
            cycle outcomes io t
            = (t, snd (scan_regions 1 outcomes False)
                  @ [CooldownActive (py_int (COOLDOWN_PERIOD - (time_time io - t))),
                     Sleep CHECK_INTERVAL])
            \<and> \<not> alert_fired (cycle outcomes io t))
       \<and> ((\<forall>ob \<in> set pre. \<not> fst (scan_regions 1 (fst ob) False))
            \<and> COOLDOWN_PERIOD \<le> time_time io \<longrightarrow>
            run_cycles (pre @ (outcomes, io) # rest) 0 ! length pre
            = (time_time io,
               snd (scan_regions 1 outcomes False) @ PlayingAudioAlert # play_audio io
               @ [Sleep CHECK_INTERVAL]))
       \<and> (time_time io = t + COOLDOWN_PERIOD \<longrightarrow> alert_fired (cycle outcomes io t))"
proof (intro conjI impI)
  assume "COOLDOWN_PERIOD \<le> time_time io - t"
  then show "cycle outcomes io t
            = (time_time io,
               snd (scan_regions 1 outcomes False) @ PlayingAudioAlert # play_audio io
               @ [Sleep CHECK_INTERVAL])"
    using assms by (simp add: cycle_unfold alert_fires)
next
  assume "time_time io - t < COOLDOWN_PERIOD"
  then show "cycle outcomes io t
            = (t, snd (scan_regions 1 outcomes False)
                  @ [CooldownActive (py_int (COOLDOWN_PERIOD - (time_time io - t))),
                     Sleep CHECK_INTERVAL])"
    using assms by (simp add: cycle_unfold alert_suppressed)
next
  assume "time_time io - t < COOLDOWN_PERIOD"
  then show "\<not> alert_fired (cycle outcomes io t)"
    using assms
    by (simp add: alert_fired_def cycle_unfold alert_suppressed scan_regions_no_alert)
next
  assume a: "(\<forall>ob \<in> set pre. \<not> fst (scan_regions 1 (fst ob) False))
            \<and> COOLDOWN_PERIOD \<le> time_time io"
  then have "run_cycles (pre @ (outcomes, io) # rest) 0 ! length pre
             = run_cycles ((outcomes, io) # rest) 0 ! 0"
    by (intro run_cycles_quiet_prefix) simp
  also have "\<dots> = cycle outcomes io 0" by (simp split: prod.splits)
  also have "\<dots> = (time_time io,
               snd (scan_regions 1 outcomes False) @ PlayingAudioAlert # play_audio io
               @ [Sleep CHECK_INTERVAL])"
    using assms a by (simp add: cycle_unfold alert_fires)
  finally show "run_cycles (pre @ (outcomes, io) # rest) 0 ! length pre
            = (time_time io,
               snd (scan_regions 1 outcomes False) @ PlayingAudioAlert # play_audio io
               @ [Sleep CHECK_INTERVAL])" .
next
  assume "time_time io = t + COOLDOWN_PERIOD"
  then show "alert_fired (cycle outcomes io t)"
    using assms by (simp add: alert_fired_def cycle_unfold alert_fires)
qed

text \<open>A match at clock reading 1700000000 after a cycle without match fires; ten
  seconds after an alert a match is held back with 10 seconds remaining; twenty seconds
  after, it fires again.\<close>

theorem alert_on_match_witness:
  "fst (scan_regions 1 [Inr 1] False)
   \<and> COOLDOWN_PERIOD \<le> time_time (world_at 1700000000) - 0
   \<and> cycle [Inr 1] (world_at 1700000000) 0
     = (1700000000, [CaptureRegion 1, RegionScore 1 1, RegionMatch 1, PlayingAudioAlert,
                     MusicPlay, Sleep 2])
   \<and> time_time (world_at 1700000010) - 1700000000 < COOLDOWN_PERIOD
   \<and> cycle [Inr 1] (world_at 1700000010) 1700000000
     = (1700000000, [CaptureRegion 1, RegionScore 1 1, RegionMatch 1, CooldownActive 10,
                     Sleep 2])
   \<and> \<not> alert_fired (cycle [Inr 1] (world_at 1700000010) 1700000000)
   \<and> \<not> fst (scan_regions 1 [Inr (1 / 2)] False)
   \<and> run_cycles [([Inr (1 / 2)], world_at 1699999998), ([Inr 1], world_at 1700000000)] 0 ! 1
     = (1700000000, [CaptureRegion 1, RegionScore 1 1, RegionMatch 1, PlayingAudioAlert,
                     MusicPlay, Sleep 2])
   \<and> time_time (world_at 1700000020) = 1700000000 + COOLDOWN_PERIOD
   \<and> alert_fired (cycle [Inr 1] (world_at 1700000020) 1700000000)"
proof -
  let ?pre = "[([Inr (1 / 2)], world_at 1699999998)]"
  have m: "fst (scan_regions 1 [Inr 1] False)"
    by (simp add: scan_one_match SIMILARITY_THRESHOLD_def del: scan_regions.simps)
  have q: "\<not> fst (scan_regions 1 [Inr (1 / 2)] False)"
    by (simp add: scan_one_no_match SIMILARITY_THRESHOLD_def del: scan_regions.simps)
  have h1: "COOLDOWN_PERIOD \<le> time_time (world_at 1700000000) - 0"
    by (simp add: world_at_simps COOLDOWN_PERIOD_def)
  have h2: "time_time (world_at 1700000010) - 1700000000 < COOLDOWN_PERIOD"
    by (simp add: world_at_simps COOLDOWN_PERIOD_def)
  have h3: "(\<forall>ob \<in> set ?pre. \<not> fst (scan_regions 1 (fst ob) False))
            \<and> COOLDOWN_PERIOD \<le> time_time (world_at 1700000000)"
    using q by (simp add: world_at_simps COOLDOWN_PERIOD_def del: scan_regions.simps)
  have h4: "time_time (world_at 1700000020) = 1700000000 + COOLDOWN_PERIOD"
    by (simp add: world_at_simps COOLDOWN_PERIOD_def)
  note A = alert_on_match [OF m, where io = "world_at 1700000000" and t = 0
      and pre = ?pre and rest = "[]"]
  note B = alert_on_match [OF m, where io = "world_at 1700000010" and t = 1700000000
      and pre = "[]" and rest = "[]"]
  note C = alert_on_match [OF m, where io = "world_at 1700000020" and t = 1700000000
      and pre = "[]" and rest = "[]"]
  note fires = A [THEN conjunct1, THEN mp, OF h1]
  note held = B [THEN conjunct2, THEN conjunct1, THEN mp, OF h2, THEN conjunct1]
  note silent = B [THEN conjunct2, THEN conjunct1, THEN mp, OF h2, THEN conjunct2]
  note first = A [THEN conjunct2, THEN conjunct2, THEN conjunct1, THEN mp, OF h3]
  note again = C [THEN conjunct2, THEN conjunct2, THEN conjunct2, THEN mp, OF h4]
  have evs: "snd (scan_regions 1 [Inr 1] False) = [CaptureRegion 1, RegionScore 1 1, RegionMatch 1]"
    by (simp add: scan_one_match SIMILARITY_THRESHOLD_def del: scan_regions.simps)
  have rem: "py_int (COOLDOWN_PERIOD - (time_time (world_at 1700000010) - 1700000000)) = 10"
    by (simp add: world_at_simps COOLDOWN_PERIOD_def py_int_def)
  have fires': "cycle [Inr 1] (world_at 1700000000) 0
     = (1700000000, [CaptureRegion 1, RegionScore 1 1, RegionMatch 1, PlayingAudioAlert,
                     MusicPlay, Sleep 2])"
    using fires by (simp only: evs world_at_simps play_audio_world_at CHECK_INTERVAL_def append.simps)
  have held': "cycle [Inr 1] (world_at 1700000010) 1700000000
     = (1700000000, [CaptureRegion 1, RegionScore 1 1, RegionMatch 1, CooldownActive 10,
                     Sleep 2])"
    using held by (simp only: evs rem CHECK_INTERVAL_def append.simps)
  have first': "run_cycles [([Inr (1 / 2)], world_at 1699999998), ([Inr 1], world_at 1700000000)] 0 ! 1
     = (1700000000, [CaptureRegion 1, RegionScore 1 1, RegionMatch 1, PlayingAudioAlert,
                     MusicPlay, Sleep 2])"
    using first
    by (simp add: scan_one_match SIMILARITY_THRESHOLD_def world_at_simps play_audio_world_at
        CHECK_INTERVAL_def del: scan_regions.simps run_cycles.simps)
  from m h1 fires' h2 held' silent q first' h4 again show ?thesis
    by (simp only: simp_thms)
qed

text \<open>
  Claim C3, as stated: with threshold 0.98, cooldown 20 seconds and a cycle every 2
  seconds, the scores 0.99, 0.5, 0.985, 0.99, 0.99 make the alert fire at cycle 1 and at
  cycle 4, and cycle 5 is suppressed. It fails: cycle 4 comes 6 seconds after cycle 1,
  inside the cooldown, so no alert fires there. The run below starts at clock reading
  1700000000.
\<close>

theorem example_run_counterexample:
  "\<not> (alert_fired (run_cycles (example_run 1700000000) 0 ! 0)
      \<and> alert_fired (run_cycles (example_run 1700000000) 0 ! 3)
      \<and> \<not> alert_fired (run_cycles (example_run 1700000000) 0 ! 4))"
proof -
  have "COOLDOWN_PERIOD \<le> 1700000000" by (simp add: COOLDOWN_PERIOD_def)
  from example_run_trace [OF this] show ?thesis by (simp add: alert_fired_def)
qed

text \<open>
  Claim C3, amended. With the same threshold, cooldown, interval and scores, and a clock
  that reads at least the cooldown period at the first cycle, the alert fires at cycle 1
  only: cycle 2 has no match, and cycles 3, 4 and 5 match but are suppressed, with 16, 14
  and 12 seconds reported as remaining; \<open>last_audio_time\<close> stays at the time of cycle 1.
\<close>

theorem example_run_alerts:
  assumes "COOLDOWN_PERIOD \<le> t"
  shows "map alert_fired (run_cycles (example_run t) 0) = [True, False, False, False, False]
       \<and> map fst (run_cycles (example_run t) 0) = [t, t, t, t, t]
       \<and> CooldownActive 16 \<in> set (snd (run_cycles (example_run t) 0 ! 2))
       \<and> CooldownActive 14 \<in> set (snd (run_cycles (example_run t) 0 ! 3))
       \<and> CooldownActive 12 \<in> set (snd (run_cycles (example_run t) 0 ! 4))"
  by (simp add: example_run_trace [OF assms] alert_fired_def)

theorem example_run_alerts_witness:
  "COOLDOWN_PERIOD \<le> 1700000000
   \<and> map alert_fired (run_cycles (example_run 1700000000) 0)
     = [True, False, False, False, False]
   \<and> map fst (run_cycles (example_run 1700000000) 0)
     = [1700000000, 1700000000, 1700000000, 1700000000, 1700000000]"
  using example_run_alerts [of 1700000000] by (simp add: COOLDOWN_PERIOD_def)

text \<open>
  Claim C5. Within one poll cycle, a capture or scoring failure on a region is caught and
  logged, and that region counts as no match; every region is still captured, every
  other region that scores has its score reported and takes part in the match, and the
  cycle goes on to the alert step and the sleep. The outcomes of a cycle in \<^verbatim>\<open>main\<close> are
  those of \<open>score_region\<close> on each of the configured regions.
\<close>

theorem region_failure_isolated:
  assumes "j < length outcomes" and "outcomes ! j = Inl e"
  shows "RegionError (Suc j) e \<in> set (snd (cycle outcomes io t))
       \<and> RegionMatch (Suc j) \<notin> set (snd (cycle outcomes io t))
       \<and> (\<forall>k<length outcomes. CaptureRegion (Suc k) \<in> set (snd (cycle outcomes io t)))
       \<and> (\<forall>k<length outcomes. \<forall>s. outcomes ! k = Inr s \<longrightarrow>
             RegionScore (Suc k) s \<in> set (snd (cycle outcomes io t)))
       \<and> fst (scan_regions 1 outcomes False)
         = (\<exists>k<length outcomes. \<exists>s. outcomes ! k = Inr s \<and> SIMILARITY_THRESHOLD \<le> s)
       \<and> cycle outcomes io t
         = (fst (alert (fst (scan_regions 1 outcomes False)) io t),
            snd (scan_regions 1 outcomes False)
            @ snd (alert (fst (scan_regions 1 outcomes False)) io t)
            @ [Sleep CHECK_INTERVAL])
       \<and> fst (observe lib sys reference_img io)
         = map (score_region lib sys reference_img io) REGIONS"
proof (intro conjI allI impI)
  show "RegionError (Suc j) e \<in> set (snd (cycle outcomes io t))"
    using scan_regions_logs_error [OF assms, of 1 False] by (simp add: cycle_unfold)
next
  show "RegionMatch (Suc j) \<notin> set (snd (cycle outcomes io t))"
  proof
    assume "RegionMatch (Suc j) \<in> set (snd (cycle outcomes io t))"
    then have "RegionMatch (Suc j) \<in> set (snd (scan_regions 1 outcomes False))"
      by (simp add: cycle_unfold alert_no_region_events)
    from scan_regions_match_origin [OF this] obtain k s
      where "Suc j = 1 + k" and "outcomes ! k = Inr s" by blast
    with assms(2) show False by simp
  qed
next
  fix k assume "k < length outcomes"
  then show "CaptureRegion (Suc k) \<in> set (snd (cycle outcomes io t))"
    using scan_regions_captures [of k outcomes 1 False] by (simp add: cycle_unfold)
next
  fix k s assume "k < length outcomes" and "outcomes ! k = Inr s"
  then show "RegionScore (Suc k) s \<in> set (snd (cycle outcomes io t))"
    using scan_regions_scores [of k outcomes s 1 False] by (simp add: cycle_unfold)
next
  show "fst (scan_regions 1 outcomes False)
         = (\<exists>k<length outcomes. \<exists>s. outcomes ! k = Inr s \<and> SIMILARITY_THRESHOLD \<le> s)"
    by (rule scan_regions_match_nth)
next
  show "cycle outcomes io t
         = (fst (alert (fst (scan_regions 1 outcomes False)) io t),
            snd (scan_regions 1 outcomes False)
            @ snd (alert (fst (scan_regions 1 outcomes False)) io t)
            @ [Sleep CHECK_INTERVAL])"
    by (rule cycle_unfold)
next
  show "fst (observe lib sys reference_img io)
         = map (score_region lib sys reference_img io) REGIONS"
    by (simp add: observe_def)
qed

text \<open>On Linux in the example world, \<^verbatim>\<open>grim\<close> fails on region 1 and region 2 matches the
  reference: the error is logged, region 2 is scored, and the alert fires.\<close>

theorem region_failure_isolated_witness:
  "0 < length (fst (observe demo_lib Linux white_1x1 (world_at 50)))
   \<and> fst (observe demo_lib Linux white_1x1 (world_at 50)) ! 0
     = Inl (RuntimeError (str_of ''grim failed: no output''))
   \<and> fst (observe demo_lib Linux white_1x1 (world_at 50)) ! 1 = Inr 1
   \<and> RegionError 1 (RuntimeError (str_of ''grim failed: no output''))
     \<in> set (snd (cycle (fst (observe demo_lib Linux white_1x1 (world_at 50))) (world_at 50) 0))
   \<and> cycle (fst (observe demo_lib Linux white_1x1 (world_at 50))) (world_at 50) 0
     = (50, [CaptureRegion 1, RegionError 1 (RuntimeError (str_of ''grim failed: no output'')),
             CaptureRegion 2, RegionScore 2 1, RegionMatch 2, PlayingAudioAlert, MusicPlay,
             Sleep 2])"
proof -
  let ?outs = "fst (observe demo_lib Linux white_1x1 (world_at 50))"
  let ?e = "RuntimeError (str_of ''grim failed: no output'')"
  have j: "0 < length ?outs" by (simp add: observe_demo)
  have e: "?outs ! 0 = Inl ?e" by (simp add: observe_demo)
  have second: "?outs ! 1 = Inr 1" by (simp add: observe_demo)
  have logged: "RegionError (Suc 0) ?e \<in> set (snd (cycle ?outs (world_at 50) 0))"
    using region_failure_isolated [OF j e, of "world_at 50" 0 demo_lib Linux white_1x1]
    by (rule conjunct1)
  have run: "cycle ?outs (world_at 50) 0
     = (50, [CaptureRegion 1, RegionError 1 ?e, CaptureRegion 2, RegionScore 2 1,
             RegionMatch 2, PlayingAudioAlert, MusicPlay, Sleep 2])"
    by (simp only: observe_demo cycle_demo)
  from j e second logged run show ?thesis by (simp only: One_nat_def simp_thms)
qed

text \<open>
  Claim C7. \<open>last_audio_time\<close> never decreases over a run: it starts at \<open>0\<close>, and in each
  cycle it either keeps its value or is replaced by a strictly larger one, the latter
  only in a cycle whose alert fired. (\<open>main_runs_from_zero\<close>: the run in \<^verbatim>\<open>main\<close> starts
  from \<open>0\<close>.)
\<close>

theorem last_audio_time_monotone:
  "sorted (0 # map fst (run_cycles obs 0))
   \<and> (\<forall>k<length obs.
        map fst (run_cycles obs 0) ! k = (0 # map fst (run_cycles obs 0)) ! k
        \<or> ((0 # map fst (run_cycles obs 0)) ! k < map fst (run_cycles obs 0) ! k
           \<and> alert_fired (run_cycles obs 0 ! k)))"
  using run_cycles_sorted [of 0 obs] run_cycles_updates [of _ obs 0] by blast

theorem last_audio_time_monotone_witness:
  "sorted (0 # map fst (run_cycles (example_run 1700000000) 0))
   \<and> map fst (run_cycles (example_run 1700000000) 0) ! 0 = 1700000000
   \<and> (0 # map fst (run_cycles (example_run 1700000000) 0)) ! 0 = 0
   \<and> alert_fired (run_cycles (example_run 1700000000) 0 ! 0)"
proof -
  have t: "COOLDOWN_PERIOD \<le> 1700000000" by (simp add: COOLDOWN_PERIOD_def)
  have "0 < length (example_run 1700000000)" by (simp add: example_run_def)
  with last_audio_time_monotone [of "example_run 1700000000"] show ?thesis
    by (simp add: example_run_trace [OF t] alert_fired_def)
qed

text \<open>
  Claim C6. When the reference image file is absent at startup, the program reports the
  error and stops: no region is captured or scored and no poll cycle runs, whatever the
  world would have offered.
\<close>

theorem missing_reference_stops:
  "main lib sys False imread world = [Starting, ErrorLoadingReference FileNotFoundError]
   \<and> (\<forall>i. CaptureRegion i \<notin> set (main lib sys False imread world))
   \<and> Sleep CHECK_INTERVAL \<notin> set (main lib sys False imread world)"
  by (simp add: main_def load_reference_image_def)

text \<open>
  Claim C9. The loader raises \<^verbatim>\<open>FileNotFoundError\<close> exactly when the file is absent; when
  the file exists but does not decode, reading the shape of \<^verbatim>\<open>None\<close> raises
  \<^verbatim>\<open>AttributeError\<close> instead.
\<close>

theorem loader_not_found_only_when_absent:
  "(load_reference_image ref_exists imread = Inl FileNotFoundError) = (\<not> ref_exists)
   \<and> load_reference_image True None = Inl AttributeError"
  by (simp add: load_reference_image_def split: option.splits decoded.splits)

text \<open>
  Claim C10 says that the Linux backend raises its \<^verbatim>\<open>RuntimeError\<close> exactly when \<^verbatim>\<open>grim\<close>
  exits with a return code other than zero. With return code 1 and the single byte
  \<open>0xFF\<close> on standard error, the handler's \<^verbatim>\<open>e.stderr.decode()\<close> raises
  \<^verbatim>\<open>UnicodeDecodeError\<close> before the \<^verbatim>\<open>RuntimeError\<close> is built. (The other half holds, see
  \<open>capture_linux_zero_exit\<close>: with return code zero the result of the decoder is returned,
  \<^verbatim>\<open>None\<close> included.)
\<close>

theorem grim_undecodable_stderr:
  "capture_region_linux dec (Exited 1 out [0xFF]) = Inl UnicodeDecodeError"
  by (simp add: capture_region_linux_def)

end
